theory Spec2Isabelle
  imports Main
begin

section \<open>Go values used by package interaction\<close>

text \<open>
  A Go string is a sequence of bytes, and \<open>len\<close> and slicing count bytes: it is a
  \<^typ>\<open>string\<close> here. A value of type \<open>[]string\<close> is either the nil slice or a
  (possibly empty) sequence of strings; \<open>reflect.DeepEqual\<close> tells the two apart, so the
  model keeps them apart: \<open>None\<close> is the nil slice.
\<close>

type_synonym slice = "string list option"

definition len :: "slice \<Rightarrow> nat" where
  "len s = (case s of None \<Rightarrow> 0 | Some xs \<Rightarrow> length xs)"

definition elems :: "slice \<Rightarrow> string list" where
  "elems s = (case s of None \<Rightarrow> [] | Some xs \<Rightarrow> xs)"

text \<open>
  \<open>reflect.DeepEqual\<close> on two slices of strings: both nil or both non-nil, the same
  length, and equal elements at every index.
\<close>

fun DeepEqual :: "slice \<Rightarrow> slice \<Rightarrow> bool" where
  "DeepEqual None None = True"
| "DeepEqual (Some xs) (Some ys) = (length xs = length ys \<and> list_all2 (=) xs ys)"
| "DeepEqual _ _ = False"

text \<open>\<open>strings.Join\<close>: the elements, with the separator between neighbours.\<close>

fun Join :: "string list \<Rightarrow> string \<Rightarrow> string" where
  "Join [] sep = ''''"
| "Join [x] sep = x"
| "Join (x # y # ys) sep = x @ sep @ Join (y # ys) sep"

text \<open>A Go \<open>error\<close> value, known by the text its \<open>Error()\<close> method returns.\<close>

datatype error = Err (Error: string)

text \<open>The verb \<open>%d\<close> of \<open>fmt.Sprintf\<close> on an \<open>int\<close>: decimal digits, a minus sign first
  for a negative number.\<close>

definition digit :: "nat \<Rightarrow> char" where
  "digit d = char_of (48 + d)"

function fmt_nat :: "nat \<Rightarrow> string" where
  "fmt_nat n = (if n < 10 then [digit n] else fmt_nat (n div 10) @ [digit (n mod 10)])"
  by pat_completeness auto
termination
  by (relation "measure (\<lambda>n. n)") auto

definition fmt_d :: "int \<Rightarrow> string" where
  "fmt_d k = (if k < 0 then CHR ''-'' # fmt_nat (nat (- k)) else fmt_nat (nat k))"

text \<open>Reading a decimal numeral back, to say what \<open>fmt_d\<close> prints.\<close>

definition digit_val :: "char \<Rightarrow> nat" where
  "digit_val c = of_char c - 48"

definition dec_nat :: "string \<Rightarrow> nat" where
  "dec_nat s = foldl (\<lambda>a c. 10 * a + digit_val c) 0 s"

definition dec_int :: "string \<Rightarrow> int" where
  "dec_int s = (case s of
       [] \<Rightarrow> 0
     | c # cs \<Rightarrow> if c = CHR ''-'' then - int (dec_nat cs) else int (dec_nat s))"

text \<open>The double quote character, written \<open>\"\<close> in the Go string literals.\<close>

definition dq :: char where
  "dq = CHR 0x22"


section \<open>The Interaction record and its result codes\<close>

definition NewInteraction :: int where "NewInteraction = 0"
definition ResultExecutionError :: int where "ResultExecutionError = 1"
definition ResultError :: int where "ResultError = 2"
definition ResultMatch :: int where "ResultMatch = 3"
definition ResultRegexMatch :: int where "ResultRegexMatch = 4"
definition ResultMismatch :: int where "ResultMismatch = 5"

record Interaction =
  Cmd :: string
  Response :: slice
  Caption :: string
  ResultCode :: int
  Comment :: string

text \<open>\<open>New\<close>: the zero value of the struct, with the caption set.\<close>

definition New :: "string \<Rightarrow> Interaction" where
  "New caption =
     \<lparr>Cmd = '''', Response = None, Caption = caption, ResultCode = 0, Comment = ''''\<rparr>"

definition elideString :: "string \<Rightarrow> int \<Rightarrow> string" where
  "elideString text' length' =
     (if length' > 6 \<and> int (length text') > length'
      then take (nat (length' - 3)) text' @ ''...''
      else text')"

definition elideAt :: int where
  "elideAt = 30"

definition Describe :: "Interaction \<Rightarrow> string" where
  "Describe interaction =
     (if length (Caption interaction) = 0 then
        (let expect = elideString (Join (elems (Response interaction)) '', '') elideAt;
             expect' = (if length expect = 0 then ''(no response expected)''
                        else ''(expecting '' @ [dq] @ expect @ [dq] @ '')'')
         in ''command '' @ [dq] @ elideString (Cmd interaction) elideAt @ [dq] @ '' '' @ expect')
      else Caption interaction)"

definition Result :: "Interaction \<Rightarrow> string" where
  "Result interaction =
     (if ResultCode interaction = NewInteraction then ''not executed''
      else if ResultCode interaction = ResultExecutionError then ''ERROR (result not evaluated)''
      else if ResultCode interaction = ResultMatch then
        (if len (Response interaction) = 0 then ''PASS (execution successful)''
         else ''PASS (match)'')
      else if ResultCode interaction = ResultRegexMatch then ''PASS (regex match)''
      else if ResultCode interaction = ResultMismatch then ''FAIL (mismatch)''
      else ''WTF'')"

definition HasFailure :: "Interaction \<Rightarrow> bool" where
  "HasFailure interaction =
     (ResultCode interaction = ResultError \<or> ResultCode interaction = ResultMismatch)"


section \<open>Execute\<close>

text \<open>
  Package \<open>shell\<close> is not part of the sources at hand. \<open>Execute\<close> calls
  \<open>shell.ExecuteCommand\<close> once, with the command, and uses nothing else of the shell, so
  the shell is the function that gives the three results of that call: the output lines,
  the exit code and the error (\<open>None\<close> for nil). The exit code is a Go \<open>int\<close>;
  \<open>Execute\<close> compares it with 0 and prints it, and computes nothing from it.
\<close>

type_synonym Shell = "string \<Rightarrow> slice \<times> int \<times> error option"

definition compareRegex :: "Interaction \<Rightarrow> slice \<Rightarrow> bool" where
  "compareRegex interaction output = False"

text \<open>\<open>fmt.Errorf("unable to execute command: %v", err)\<close>.\<close>

definition Errorf_unable :: "error \<Rightarrow> error" where
  "Errorf_unable e = Err (''unable to execute command: '' @ Error e)"

text \<open>
  \<open>Execute\<close> returns the error it returns in Go (\<open>None\<close> for nil) and the Interaction as
  the call leaves it.
\<close>

definition Execute :: "Shell \<Rightarrow> Interaction \<Rightarrow> error option \<times> Interaction" where
  "Execute shell interaction =
     (case shell (Cmd interaction) of (output, rc, err) \<Rightarrow>
        (case err of
           Some e \<Rightarrow>
             (Some (Errorf_unable e),
              interaction\<lparr>ResultCode := ResultExecutionError, Comment := Error e\<rparr>)
         | None \<Rightarrow>
             if rc \<noteq> 0 then
               (None, interaction\<lparr>ResultCode := ResultError,
                  Comment := ''command exited with non-zero exit code '' @ fmt_d rc\<rparr>)
             else if DeepEqual output (Response interaction) then
               (None, interaction\<lparr>ResultCode := ResultMatch, Comment := ''''\<rparr>)
             else if compareRegex interaction output then
               (None, interaction\<lparr>ResultCode := ResultRegexMatch\<rparr>)
             else
               (None, interaction\<lparr>ResultCode := ResultMismatch, Comment := ''''\<rparr>)))"


section \<open>Concrete shells and interactions\<close>

text \<open>A shell whose commands print nothing and succeed; the output is the nil slice.\<close>

definition shell_silent :: Shell where
  "shell_silent c = (None, 0, None)"

text \<open>The same, but the output is an empty slice that is not nil.\<close>

definition shell_silent_nonnil :: Shell where
  "shell_silent_nonnil c = (Some [], 0, None)"

text \<open>A shell that echoes the line \<open>Hello\<close>.\<close>

definition shell_hello :: Shell where
  "shell_hello c = (Some [''Hello''], 0, None)"

text \<open>A shell whose commands exit with code 2, and one where they exit with 127.\<close>

definition shell_exit2 :: Shell where
  "shell_exit2 c = (Some [''Hello''], 2, None)"

definition shell_exit127 :: Shell where
  "shell_exit127 c = (None, 127, None)"

text \<open>A shell that cannot run anything.\<close>

definition shell_broken :: Shell where
  "shell_broken c = (None, 0, Some (Err ''broken pipe''))"

text \<open>\<open>$ echo true\<close>, with no response expected: the response is nil, as \<open>New\<close> leaves it.\<close>

definition echo_true :: Interaction where
  "echo_true = (New '''')\<lparr>Cmd := ''echo true''\<rparr>"

text \<open>The same command, with an expected response that is empty but not nil.\<close>

definition echo_true_empty :: Interaction where
  "echo_true_empty = (New '''')\<lparr>Cmd := ''echo true'', Response := Some []\<rparr>"

text \<open>\<open>$ echo hello\<close> expecting \<open>World\<close>.\<close>

definition echo_hello_world :: Interaction where
  "echo_hello_world = (New '''')\<lparr>Cmd := ''echo hello'', Response := Some [''World'']\<rparr>"

text \<open>\<open>$ echo hello\<close> expecting \<open>Hello\<close>.\<close>

definition echo_hello :: Interaction where
  "echo_hello = (New '''')\<lparr>Cmd := ''echo hello'', Response := Some [''Hello'']\<rparr>"

text \<open>The command of the specification's example for \<open>Describe\<close>: 29 bytes.\<close>

definition echo_long :: Interaction where
  "echo_long = (New '''')\<lparr>Cmd := ''echo hello world this is long''\<rparr>"

text \<open>A command of 31 bytes.\<close>

definition echo_longer :: Interaction where
  "echo_longer = (New '''')\<lparr>Cmd := ''echo hello world this is longer''\<rparr>"

text \<open>An interaction with a caption.\<close>

definition captioned :: Interaction where
  "captioned = (New ''say hello'')\<lparr>Cmd := ''echo hello''\<rparr>"


section \<open>Helper lemmas\<close>

lemmas ResultCode_defs =
  NewInteraction_def ResultExecutionError_def ResultError_def ResultMatch_def
  ResultRegexMatch_def ResultMismatch_def

lemma DeepEqual_iff:
  "DeepEqual a b \<longleftrightarrow> elems a = elems b \<and> (a = None \<longleftrightarrow> b = None)"
  by (cases a; cases b) (auto simp: elems_def list_all2_eq [symmetric] dest: list_all2_lengthD)

lemma DeepEqual_eq: "DeepEqual a b \<longleftrightarrow> a = b"
  by (cases a; cases b) (auto simp: list_all2_eq [symmetric] dest: list_all2_lengthD)

declare fmt_nat.simps [simp del]

lemma digit_val_digit: "d < 10 \<Longrightarrow> digit_val (digit d) = d"
  by (simp add: digit_val_def digit_def)

lemma dec_nat_snoc: "dec_nat (s @ [c]) = 10 * dec_nat s + digit_val c"
  by (simp add: dec_nat_def)

lemma dec_nat_fmt_nat: "dec_nat (fmt_nat n) = n"
proof (induction n rule: fmt_nat.induct)
  case (1 n)
  show ?case
  proof (cases "n < 10")
    case True
    then show ?thesis
      by (simp add: fmt_nat.simps [of n] dec_nat_def digit_val_digit)
  next
    case False
    with "1" have "dec_nat (fmt_nat (n div 10)) = n div 10" by simp
    with False show ?thesis
      by (simp add: fmt_nat.simps [of n] dec_nat_snoc digit_val_digit)
  qed
qed

lemma fmt_nat_not_Nil: "fmt_nat n \<noteq> []"
  by (simp add: fmt_nat.simps [of n])

lemma digit_not_minus: "d < 10 \<Longrightarrow> digit d \<noteq> CHR ''-''"
proof
  assume d: "d < 10" and eq: "digit d = CHR ''-''"
  have "(of_char (digit d) :: nat) = 48 + d"
    using d by (simp add: digit_def)
  with eq show False by simp
qed

lemma hd_fmt_nat: "hd (fmt_nat n) \<noteq> CHR ''-''"
proof (induction n rule: fmt_nat.induct)
  case (1 n)
  show ?case
  proof (cases "n < 10")
    case True
    then show ?thesis
      by (simp add: fmt_nat.simps [of n] digit_not_minus)
  next
    case False
    with "1" have "hd (fmt_nat (n div 10)) \<noteq> CHR ''-''" by simp
    with False show ?thesis
      by (simp add: fmt_nat.simps [of n] fmt_nat_not_Nil)
  qed
qed

lemma dec_int_fmt_d: "dec_int (fmt_d k) = k"
proof (cases "k < 0")
  case True
  then show ?thesis by (simp add: dec_int_def fmt_d_def dec_nat_fmt_nat)
next
  case False
  obtain c cs where eq: "fmt_nat (nat k) = c # cs"
    using fmt_nat_not_Nil [of "nat k"] by (cases "fmt_nat (nat k)") auto
  with hd_fmt_nat [of "nat k"] have "c \<noteq> CHR ''-''" by simp
  with False eq dec_nat_fmt_nat [of "nat k"] show ?thesis
    by (simp add: dec_int_def fmt_d_def)
qed

lemma Execute_shell_error:
  assumes "shell (Cmd interaction) = (output, rc, Some e)"
  shows "Execute shell interaction =
           (Some (Errorf_unable e),
            interaction\<lparr>ResultCode := ResultExecutionError, Comment := Error e\<rparr>)"
  using assms by (simp add: Execute_def)

lemma Execute_no_shell_error:
  assumes "shell (Cmd interaction) = (output, rc, None)"
  shows "fst (Execute shell interaction) = None"
  using assms by (simp add: Execute_def)

lemma Execute_cases:
  "Execute shell interaction =
     (case snd (snd (shell (Cmd interaction))) of
        Some e \<Rightarrow> (Some (Errorf_unable e),
                   interaction\<lparr>ResultCode := ResultExecutionError, Comment := Error e\<rparr>)
      | None \<Rightarrow>
          if fst (snd (shell (Cmd interaction))) \<noteq> 0 then
            (None, interaction\<lparr>ResultCode := ResultError,
               Comment := ''command exited with non-zero exit code ''
                 @ fmt_d (fst (snd (shell (Cmd interaction))))\<rparr>)
          else if fst (shell (Cmd interaction)) = Response interaction then
            (None, interaction\<lparr>ResultCode := ResultMatch, Comment := ''''\<rparr>)
          else (None, interaction\<lparr>ResultCode := ResultMismatch, Comment := ''''\<rparr>))"
  by (simp add: Execute_def compareRegex_def DeepEqual_eq split: prod.splits option.splits)

lemma elideString_elideAt:
  "elideString s elideAt = (if length s \<le> 30 then s else take 27 s @ ''...'')"
  by (simp add: elideString_def elideAt_def)

text \<open>
  Where the output and the expected response agree as sequences and are both nil or both
  non-nil, \<open>Execute\<close> records an exact match and clears the comment; with nothing
  expected, \<open>Result\<close> then reads \<open>PASS (execution successful)\<close>.
\<close>

lemma Execute_DeepEqual_match:
  assumes "shell (Cmd interaction) = (output, 0, None)"
    and "elems output = elems (Response interaction)"
    and "output = None \<longleftrightarrow> Response interaction = None"
  shows "Execute shell interaction =
           (None, interaction\<lparr>ResultCode := ResultMatch, Comment := ''''\<rparr>) \<and>
         (elems (Response interaction) = [] \<longrightarrow>
            Result (snd (Execute shell interaction)) = ''PASS (execution successful)'')"
proof -
  from assms(2,3) have "DeepEqual output (Response interaction)"
    by (simp add: DeepEqual_iff)
  with assms(1) have ex: "Execute shell interaction =
      (None, interaction\<lparr>ResultCode := ResultMatch, Comment := ''''\<rparr>)"
    by (simp add: Execute_def)
  have "len (Response interaction) = 0" if "elems (Response interaction) = []"
    using that by (simp add: len_def elems_def split: option.splits)
  with ex show ?thesis
    by (simp add: Result_def ResultCode_defs)
qed

lemma Execute_DeepEqual_match_examples:
  "Execute shell_silent echo_true =
     (None, echo_true\<lparr>ResultCode := ResultMatch, Comment := ''''\<rparr>) \<and>
   Result (snd (Execute shell_silent echo_true)) = ''PASS (execution successful)'' \<and>
   Execute shell_hello echo_hello =
     (None, echo_hello\<lparr>ResultCode := ResultMatch, Comment := ''''\<rparr>)"
proof -
  have a: "shell_silent (Cmd echo_true) = (None, 0, None)"
    by (simp add: shell_silent_def)
  have b: "elems None = elems (Response echo_true)"
    by (simp add: echo_true_def New_def)
  have c: "(None :: slice) = None \<longleftrightarrow> Response echo_true = None"
    by (simp add: echo_true_def New_def)
  have d: "elems (Response echo_true) = []"
    by (simp add: echo_true_def New_def elems_def)
  have a': "shell_hello (Cmd echo_hello) = (Some [''Hello''], 0, None)"
    by (simp add: shell_hello_def)
  have b': "elems (Some [''Hello'']) = elems (Response echo_hello)"
    by (simp add: echo_hello_def New_def)
  have c': "Some [''Hello''] = None \<longleftrightarrow> Response echo_hello = None"
    by (simp add: echo_hello_def New_def)
  note w = Execute_DeepEqual_match [of shell_silent echo_true None, OF a b c]
  note w' = Execute_DeepEqual_match [of shell_hello echo_hello "Some [''Hello'']", OF a' b' c']
  from w d have "Result (snd (Execute shell_silent echo_true)) = ''PASS (execution successful)''"
    by blast
  with w w' show ?thesis by blast
qed


section \<open>Execute: exact match\<close>

text \<open>
  Claim C1: whenever the shell reports no error, exit code 0 and output lines equal to the
  expected response (same length, same strings, same order), \<open>Execute\<close> records
  \<open>ResultMatch\<close> and an empty comment; in particular nothing expected and nothing printed
  gives \<open>PASS (execution successful)\<close>.

  The code compares with \<open>reflect.DeepEqual\<close>, which holds a nil slice and an empty
  slice that is not nil to be different. The interaction \<open>echo true\<close> expects nothing
  (its response is nil, and \<open>Describe\<close> says \<open>(no response expected)\<close>); against a shell
  that prints nothing, succeeds and hands back an empty non-nil slice, \<open>Execute\<close> records
  \<open>ResultMismatch\<close> and \<open>Result\<close> reads \<open>FAIL (mismatch)\<close>. The same happens the
  other way round: an empty non-nil expected response, which \<open>Result\<close> and \<open>Describe\<close>
  treat as nothing expected, against nil output.
\<close>

theorem Execute_empty_output_mismatch:
  "shell_silent_nonnil (Cmd echo_true) = (Some [], 0, None) \<and>
   elems (Some []) = elems (Response echo_true) \<and>
   Describe echo_true = ''command '' @ [dq] @ ''echo true'' @ [dq] @ '' (no response expected)'' \<and>
   ResultCode (snd (Execute shell_silent_nonnil echo_true)) = ResultMismatch \<and>
   ResultCode (snd (Execute shell_silent_nonnil echo_true)) \<noteq> ResultMatch \<and>
   Result (snd (Execute shell_silent_nonnil echo_true)) = ''FAIL (mismatch)'' \<and>
   shell_silent (Cmd echo_true_empty) = (None, 0, None) \<and>
   elems None = elems (Response echo_true_empty) \<and>
   Describe echo_true_empty =
     ''command '' @ [dq] @ ''echo true'' @ [dq] @ '' (no response expected)'' \<and>
   ResultCode (snd (Execute shell_silent echo_true_empty)) = ResultMismatch \<and>
   Result (snd (Execute shell_silent echo_true_empty)) = ''FAIL (mismatch)''"
  by (simp add: Execute_cases shell_silent_nonnil_def shell_silent_def echo_true_def
      echo_true_empty_def New_def elems_def Result_def ResultCode_defs Describe_def
      elideString_elideAt)


section \<open>Execute: the error channel\<close>

text \<open>
  Claim C2: \<open>Execute\<close> returns an error exactly when the shell itself reports one. On that
  path the returned error wraps the shell's (\<open>unable to execute command: ...\<close>), the result
  code is \<open>ResultExecutionError\<close> and the comment is the description of the shell's
  error; on every other path \<open>Execute\<close> returns nil.
\<close>

theorem Execute_error_iff_shell_error:
  "(fst (Execute shell interaction) \<noteq> None \<longleftrightarrow>
      snd (snd (shell (Cmd interaction))) \<noteq> None) \<and>
   (\<forall>e. snd (snd (shell (Cmd interaction))) = Some e \<longrightarrow>
      Execute shell interaction =
        (Some (Err (''unable to execute command: '' @ Error e)),
         interaction\<lparr>ResultCode := ResultExecutionError, Comment := Error e\<rparr>))"
proof -
  obtain out rc err where sh: "shell (Cmd interaction) = (out, rc, err)"
    by (cases "shell (Cmd interaction)") auto
  show ?thesis
  proof (cases err)
    case None
    with sh have "fst (Execute shell interaction) = None"
      by (simp add: Execute_no_shell_error)
    with sh None show ?thesis by simp
  next
    case (Some e)
    with sh have "Execute shell interaction =
        (Some (Errorf_unable e),
         interaction\<lparr>ResultCode := ResultExecutionError, Comment := Error e\<rparr>)"
      by (simp add: Execute_shell_error)
    with sh Some show ?thesis by (simp add: Errorf_unable_def)
  qed
qed

text \<open>A shell with a broken pipe, and one that works.\<close>

theorem Execute_error_iff_shell_error_witness:
  "Execute shell_broken echo_true =
     (Some (Err ''unable to execute command: broken pipe''),
      echo_true\<lparr>ResultCode := ResultExecutionError, Comment := ''broken pipe''\<rparr>) \<and>
   fst (Execute shell_silent echo_true) = None"
proof -
  have a: "snd (snd (shell_broken (Cmd echo_true))) = Some (Err ''broken pipe'')"
    by (simp add: shell_broken_def)
  have b: "snd (snd (shell_silent (Cmd echo_true))) = None"
    by (simp add: shell_silent_def)
  from Execute_error_iff_shell_error [of shell_broken echo_true] a
  have "Execute shell_broken echo_true =
     (Some (Err (''unable to execute command: '' @ Error (Err ''broken pipe''))),
      echo_true\<lparr>ResultCode := ResultExecutionError, Comment := Error (Err ''broken pipe'')\<rparr>)"
    by blast
  moreover from Execute_error_iff_shell_error [of shell_silent echo_true] b
  have "fst (Execute shell_silent echo_true) = None"
    by simp
  ultimately show ?thesis by simp
qed


section \<open>Execute: non-zero exit code\<close>

text \<open>
  Claim C3: when the shell reports no error and an exit code other than 0, whatever the
  output, \<open>Execute\<close> returns nil, records \<open>ResultError\<close> and sets the comment to
  \<open>command exited with non-zero exit code N\<close>, where \<open>N\<close> is the exit code in decimal
  (reading the digits back gives the exit code); \<open>HasFailure\<close> is then true.
\<close>

theorem Execute_nonzero_exit:
  assumes "shell (Cmd interaction) = (output, rc, None)" and "rc \<noteq> 0"
  shows "Execute shell interaction =
           (None, interaction\<lparr>ResultCode := ResultError,
              Comment := ''command exited with non-zero exit code '' @ fmt_d rc\<rparr>) \<and>
         dec_int (fmt_d rc) = rc \<and>
         HasFailure (snd (Execute shell interaction))"
  using assms by (simp add: Execute_def dec_int_fmt_d HasFailure_def)

text \<open>Exit codes 2 and 127.\<close>

theorem Execute_nonzero_exit_witness:
  "Execute shell_exit2 echo_hello =
     (None, echo_hello\<lparr>ResultCode := ResultError,
        Comment := ''command exited with non-zero exit code 2''\<rparr>) \<and>
   Comment (snd (Execute shell_exit127 echo_true)) =
     ''command exited with non-zero exit code 127''"
proof -
  have a: "shell_exit2 (Cmd echo_hello) = (Some [''Hello''], 2, None)"
    by (simp add: shell_exit2_def)
  have b: "shell_exit127 (Cmd echo_true) = (None, 127, None)"
    by (simp add: shell_exit127_def)
  have c: "fmt_d 2 = ''2''" by code_simp
  have d: "fmt_d 127 = ''127''" by code_simp
  from Execute_nonzero_exit [of shell_exit2 echo_hello "Some [''Hello'']" 2, OF a]
    Execute_nonzero_exit [of shell_exit127 echo_true None 127, OF b] c d
  show ?thesis by simp
qed


section \<open>Result and HasFailure\<close>

text \<open>
  Claim C4: for an Interaction whose result code is \<open>ResultError\<close> (the command exited
  with a non-zero code), \<open>Result\<close> returns an error-style label comparable to the one of
  \<open>ResultExecutionError\<close>.

  The switch in \<open>Result\<close> has no case for \<open>ResultError\<close>: after a command exits with
  127 the result code is \<open>ResultError\<close> and \<open>Result\<close> falls through to \<open>WTF\<close>, as it
  does for every Interaction with that code.
\<close>

theorem Result_of_ResultError:
  "ResultCode (snd (Execute shell_exit127 echo_true)) = ResultError \<and>
   Result (snd (Execute shell_exit127 echo_true)) = ''WTF'' \<and>
   Result (interaction\<lparr>ResultCode := ResultError\<rparr>) = ''WTF''"
  by (simp add: Execute_cases shell_exit127_def Result_def ResultCode_defs)

text \<open>
  Claim C5: \<open>HasFailure\<close> is true exactly when the result code is \<open>ResultError\<close> or
  \<open>ResultMismatch\<close>: true for those two, false for \<open>ResultExecutionError\<close>, for
  \<open>NewInteraction\<close> and for the passing codes \<open>ResultMatch\<close> and \<open>ResultRegexMatch\<close>.
\<close>

theorem HasFailure_iff:
  "(HasFailure interaction \<longleftrightarrow>
      ResultCode interaction = ResultError \<or> ResultCode interaction = ResultMismatch) \<and>
   HasFailure (interaction\<lparr>ResultCode := ResultError\<rparr>) \<and>
   HasFailure (interaction\<lparr>ResultCode := ResultMismatch\<rparr>) \<and>
   \<not> HasFailure (interaction\<lparr>ResultCode := ResultExecutionError\<rparr>) \<and>
   \<not> HasFailure (interaction\<lparr>ResultCode := NewInteraction\<rparr>) \<and>
   \<not> HasFailure (interaction\<lparr>ResultCode := ResultMatch\<rparr>) \<and>
   \<not> HasFailure (interaction\<lparr>ResultCode := ResultRegexMatch\<rparr>)"
  by (simp add: HasFailure_def ResultCode_defs)

text \<open>
  Claim C6: \<open>Result\<close> gives \<open>not executed\<close> for \<open>NewInteraction\<close>,
  \<open>ERROR (result not evaluated)\<close> for \<open>ResultExecutionError\<close>,
  \<open>PASS (execution successful)\<close> for \<open>ResultMatch\<close> with an expected response of
  length 0, \<open>PASS (match)\<close> for \<open>ResultMatch\<close> with a longer one,
  \<open>PASS (regex match)\<close> for \<open>ResultRegexMatch\<close> and \<open>FAIL (mismatch)\<close> for
  \<open>ResultMismatch\<close>.
\<close>

theorem Result_strings:
  "(ResultCode interaction = NewInteraction \<longrightarrow> Result interaction = ''not executed'') \<and>
   (ResultCode interaction = ResultExecutionError \<longrightarrow>
      Result interaction = ''ERROR (result not evaluated)'') \<and>
   (ResultCode interaction = ResultMatch \<and> len (Response interaction) = 0 \<longrightarrow>
      Result interaction = ''PASS (execution successful)'') \<and>
   (ResultCode interaction = ResultMatch \<and> len (Response interaction) \<noteq> 0 \<longrightarrow>
      Result interaction = ''PASS (match)'') \<and>
   (ResultCode interaction = ResultRegexMatch \<longrightarrow> Result interaction = ''PASS (regex match)'') \<and>
   (ResultCode interaction = ResultMismatch \<longrightarrow> Result interaction = ''FAIL (mismatch)'')"
  by (simp add: Result_def ResultCode_defs)

text \<open>Each of the six lines, at \<open>echo true\<close> (nothing expected) and \<open>echo hello\<close>.\<close>

theorem Result_strings_witness:
  "Result echo_true = ''not executed'' \<and>
   Result (echo_true\<lparr>ResultCode := ResultExecutionError\<rparr>) = ''ERROR (result not evaluated)'' \<and>
   Result (echo_true\<lparr>ResultCode := ResultMatch\<rparr>) = ''PASS (execution successful)'' \<and>
   Result (echo_true_empty\<lparr>ResultCode := ResultMatch\<rparr>) = ''PASS (execution successful)'' \<and>
   Result (echo_hello\<lparr>ResultCode := ResultMatch\<rparr>) = ''PASS (match)'' \<and>
   Result (echo_hello\<lparr>ResultCode := ResultRegexMatch\<rparr>) = ''PASS (regex match)'' \<and>
   Result (echo_hello\<lparr>ResultCode := ResultMismatch\<rparr>) = ''FAIL (mismatch)''"
proof -
  have a: "ResultCode echo_true = NewInteraction"
    by (simp add: echo_true_def New_def NewInteraction_def)
  have b: "len (Response echo_true) = 0" "len (Response echo_true_empty) = 0"
    by (simp_all add: echo_true_def echo_true_empty_def New_def len_def)
  have c: "len (Response echo_hello) \<noteq> 0"
    by (simp add: echo_hello_def New_def len_def)
  from a Result_strings [of echo_true]
  have "Result echo_true = ''not executed''" by blast
  moreover from Result_strings [of "echo_true\<lparr>ResultCode := ResultExecutionError\<rparr>"]
  have "Result (echo_true\<lparr>ResultCode := ResultExecutionError\<rparr>) =
      ''ERROR (result not evaluated)''" by simp
  moreover from b Result_strings [of "echo_true\<lparr>ResultCode := ResultMatch\<rparr>"]
  have "Result (echo_true\<lparr>ResultCode := ResultMatch\<rparr>) = ''PASS (execution successful)''"
    by simp
  moreover from b Result_strings [of "echo_true_empty\<lparr>ResultCode := ResultMatch\<rparr>"]
  have "Result (echo_true_empty\<lparr>ResultCode := ResultMatch\<rparr>) =
      ''PASS (execution successful)''"
    by simp
  moreover from c Result_strings [of "echo_hello\<lparr>ResultCode := ResultMatch\<rparr>"]
  have "Result (echo_hello\<lparr>ResultCode := ResultMatch\<rparr>) = ''PASS (match)''"
    by simp
  moreover from Result_strings [of "echo_hello\<lparr>ResultCode := ResultRegexMatch\<rparr>"]
  have "Result (echo_hello\<lparr>ResultCode := ResultRegexMatch\<rparr>) = ''PASS (regex match)''"
    by simp
  moreover from Result_strings [of "echo_hello\<lparr>ResultCode := ResultMismatch\<rparr>"]
  have "Result (echo_hello\<lparr>ResultCode := ResultMismatch\<rparr>) = ''FAIL (mismatch)''"
    by simp
  ultimately show ?thesis by simp
qed


section \<open>Execute: the comment\<close>

text \<open>
  Claim C7, as amended: after \<open>Execute\<close> classifies an outcome as \<open>ResultMismatch\<close>
  the comment is the empty string, as it is after \<open>ResultMatch\<close>; after \<open>ResultError\<close>
  it is not empty; and an empty comment after \<open>Execute\<close> means a match, a mismatch, or a
  shell error whose description is empty.
\<close>

theorem Execute_mismatch_comment:
  "(ResultCode (snd (Execute shell interaction)) = ResultMismatch \<longrightarrow>
      Comment (snd (Execute shell interaction)) = '''') \<and>
   (ResultCode (snd (Execute shell interaction)) = ResultMatch \<longrightarrow>
      Comment (snd (Execute shell interaction)) = '''') \<and>
   (ResultCode (snd (Execute shell interaction)) = ResultError \<longrightarrow>
      Comment (snd (Execute shell interaction)) \<noteq> '''') \<and>
   (Comment (snd (Execute shell interaction)) = '''' \<longrightarrow>
      ResultCode (snd (Execute shell interaction)) = ResultMatch \<or>
      ResultCode (snd (Execute shell interaction)) = ResultMismatch \<or>
      ResultCode (snd (Execute shell interaction)) = ResultExecutionError \<and>
        snd (snd (shell (Cmd interaction))) = Some (Err ''''))"
proof (cases "snd (snd (shell (Cmd interaction)))")
  case None
  then show ?thesis
    by (simp add: Execute_cases ResultCode_defs)
next
  case (Some e)
  then show ?thesis
    by (cases e) (simp add: Execute_cases ResultCode_defs)
qed

text \<open>A mismatch, a match and a failed command.\<close>

theorem Execute_mismatch_comment_witness:
  "Comment (snd (Execute shell_hello echo_hello_world)) = '''' \<and>
   Comment (snd (Execute shell_hello echo_hello)) = '''' \<and>
   Comment (snd (Execute shell_exit2 echo_hello)) \<noteq> ''''"
proof -
  have a: "ResultCode (snd (Execute shell_hello echo_hello_world)) = ResultMismatch"
    by (simp add: Execute_cases shell_hello_def echo_hello_world_def New_def)
  have b: "ResultCode (snd (Execute shell_hello echo_hello)) = ResultMatch"
    by (simp add: Execute_cases shell_hello_def echo_hello_def New_def)
  have c: "ResultCode (snd (Execute shell_exit2 echo_hello)) = ResultError"
    by (simp add: Execute_cases shell_exit2_def)
  from a Execute_mismatch_comment [of shell_hello echo_hello_world]
  have "Comment (snd (Execute shell_hello echo_hello_world)) = ''''" by blast
  moreover from b Execute_mismatch_comment [of shell_hello echo_hello]
  have "Comment (snd (Execute shell_hello echo_hello)) = ''''" by blast
  moreover from c Execute_mismatch_comment [of shell_exit2 echo_hello]
  have "Comment (snd (Execute shell_exit2 echo_hello)) \<noteq> ''''" by blast
  ultimately show ?thesis by blast
qed

text \<open>
  Claim C7 as stated (after a mismatch the comment is populated) fails: \<open>echo hello\<close>
  expecting \<open>World\<close>, against a shell that prints \<open>Hello\<close> and exits with 0, is a
  mismatch, and the comment is empty.
\<close>

theorem Execute_mismatch_comment_counterexample:
  "shell_hello (Cmd echo_hello_world) = (Some [''Hello''], 0, None) \<and>
   Response echo_hello_world = Some [''World''] \<and>
   ResultCode (snd (Execute shell_hello echo_hello_world)) = ResultMismatch \<and>
   Comment (snd (Execute shell_hello echo_hello_world)) = ''''"
  by (simp add: Execute_cases shell_hello_def echo_hello_world_def New_def)


section \<open>Execute: the regex hook\<close>

text \<open>
  Claim C8: \<open>compareRegex\<close> answers false for every Interaction and every output, and so
  no call of \<open>Execute\<close>, for any Interaction and any result of the shell, leaves the result
  code \<open>ResultRegexMatch\<close>.
\<close>

theorem compareRegex_never_matches:
  "\<not> compareRegex i output \<and>
   ResultCode (snd (Execute shell interaction)) \<noteq> ResultRegexMatch"
proof
  show "\<not> compareRegex i output"
    by (simp add: compareRegex_def)
next
  obtain out rc err where sh: "shell (Cmd interaction) = (out, rc, err)"
    by (cases "shell (Cmd interaction)") auto
  have no: "\<not> compareRegex interaction out"
    by (simp add: compareRegex_def)
  consider (failed) e where "err = Some e"
    | (exit) "err = None" "rc \<noteq> 0"
    | (match) "err = None" "rc = 0" "DeepEqual out (Response interaction)"
    | (mismatch) "err = None" "rc = 0" "\<not> DeepEqual out (Response interaction)"
    by (cases err) auto
  then show "ResultCode (snd (Execute shell interaction)) \<noteq> ResultRegexMatch"
  proof cases
    case failed
    with sh show ?thesis by (simp add: Execute_def ResultCode_defs)
  next
    case exit
    with sh show ?thesis by (simp add: Execute_def ResultCode_defs)
  next
    case match
    with sh show ?thesis by (simp add: Execute_def ResultCode_defs)
  next
    case mismatch
    with sh no show ?thesis by (simp add: Execute_def ResultCode_defs)
  qed
qed


section \<open>Describe\<close>

text \<open>
  Claim C9, as amended: \<open>Describe\<close> returns the caption whenever it is not empty. With an
  empty caption it returns \<open>command "c" r\<close>, where \<open>c\<close> is the preview of the command
  and \<open>r\<close> is \<open>(no response expected)\<close> when the expected response is empty and
  \<open>(expecting "p")\<close>, \<open>p\<close> the preview of the expected lines joined with a comma and a
  space, when that joined text is not empty. The preview of a text of at most 30 bytes is
  the text itself; the preview of a longer text is its first 27 bytes followed by \<open>...\<close>,
  30 bytes in all. In particular the command \<open>echo hello world this is long\<close> has 29
  bytes and is shown in full, with no ellipsis.
\<close>

theorem Describe_preview:
  "(Caption interaction \<noteq> '''' \<longrightarrow> Describe interaction = Caption interaction) \<and>
   (Caption interaction = '''' \<and> elems (Response interaction) = [] \<longrightarrow>
      Describe interaction =
        ''command '' @ [dq] @ elideString (Cmd interaction) elideAt @ [dq]
          @ '' (no response expected)'') \<and>
   (Caption interaction = '''' \<and> Join (elems (Response interaction)) '', '' \<noteq> '''' \<longrightarrow>
      Describe interaction =
        ''command '' @ [dq] @ elideString (Cmd interaction) elideAt @ [dq]
          @ '' (expecting '' @ [dq]
          @ elideString (Join (elems (Response interaction)) '', '') elideAt @ [dq] @ '')'') \<and>
   (length s \<le> 30 \<longrightarrow> elideString s elideAt = s) \<and>
   (length s > 30 \<longrightarrow>
      elideString s elideAt = take 27 s @ ''...'' \<and> length (elideString s elideAt) = 30) \<and>
   Describe echo_long =
     ''command '' @ [dq] @ ''echo hello world this is long'' @ [dq] @ '' (no response expected)''"
  by (simp add: Describe_def elideString_elideAt echo_long_def New_def elems_def Let_def)

text \<open>A caption, a command of 31 bytes, and a command with an expected line.\<close>

theorem Describe_preview_witness:
  "Describe captioned = ''say hello'' \<and>
   Describe echo_longer =
     ''command '' @ [dq] @ ''echo hello world this is lo...'' @ [dq] @ '' (no response expected)'' \<and>
   Describe echo_hello =
     ''command '' @ [dq] @ ''echo hello'' @ [dq] @ '' (expecting '' @ [dq] @ ''Hello'' @ [dq] @ '')''"
proof -
  have a: "Caption captioned \<noteq> ''''" "Caption captioned = ''say hello''"
    by (simp_all add: captioned_def New_def)
  have b: "Caption echo_longer = '''' \<and> elems (Response echo_longer) = []"
    by (simp add: echo_longer_def New_def elems_def)
  have c: "\<not> length (Cmd echo_longer) \<le> 30" "length (Cmd echo_longer) > 30"
    "take 27 (Cmd echo_longer) = ''echo hello world this is lo''"
    by (simp_all add: echo_longer_def New_def)
  have d: "Caption echo_hello = '''' \<and> Join (elems (Response echo_hello)) '', '' \<noteq> ''''"
    "Join (elems (Response echo_hello)) '', '' = ''Hello''"
    "length (Cmd echo_hello) \<le> 30" "length ''Hello'' \<le> 30" "Cmd echo_hello = ''echo hello''"
    by (simp_all add: echo_hello_def New_def elems_def)
  from a Describe_preview [of captioned]
  have 1: "Describe captioned = ''say hello''" by simp
  from c Describe_preview [of echo_longer "Cmd echo_longer"]
  have "elideString (Cmd echo_longer) elideAt = ''echo hello world this is lo...''"
    by simp
  with b Describe_preview [of echo_longer]
  have 2: "Describe echo_longer =
     ''command '' @ [dq] @ ''echo hello world this is lo...'' @ [dq] @ '' (no response expected)''"
    by simp
  from d Describe_preview [of echo_hello "Cmd echo_hello"]
  have e: "elideString ''echo hello'' elideAt = ''echo hello''" by simp
  from d Describe_preview [of echo_hello "''Hello''"]
  have f: "elideString ''Hello'' elideAt = ''Hello''" by blast
  from d(1) Describe_preview [of echo_hello]
  have "Describe echo_hello =
        ''command '' @ [dq] @ elideString (Cmd echo_hello) elideAt @ [dq]
          @ '' (expecting '' @ [dq]
          @ elideString (Join (elems (Response echo_hello)) '', '') elideAt @ [dq] @ '')''"
    by blast
  with d e f have 3: "Describe echo_hello =
     ''command '' @ [dq] @ ''echo hello'' @ [dq] @ '' (expecting '' @ [dq] @ ''Hello'' @ [dq] @ '')''"
    by simp
  from 1 2 3 show ?thesis by blast
qed

text \<open>
  Claim C9 as stated (the preview of \<open>echo hello world this is long\<close> is truncated, with
  an ellipsis appended) fails: the command has 29 bytes, \<open>elideString\<close> leaves it as it
  is, and \<open>Describe\<close> shows all of it.
\<close>

theorem Describe_echo_long_counterexample:
  "Caption echo_long = '''' \<and> Response echo_long = None \<and>
   Cmd echo_long = ''echo hello world this is long'' \<and>
   length (Cmd echo_long) = 29 \<and>
   elideString (Cmd echo_long) elideAt = ''echo hello world this is long'' \<and>
   Describe echo_long =
     ''command '' @ [dq] @ ''echo hello world this is long'' @ [dq] @ '' (no response expected)''"
  by (simp add: Describe_def elideString_elideAt echo_long_def New_def elems_def)


section \<open>Execute: what it leaves alone\<close>

text \<open>
  Claim C10: for every Interaction and every result of the shell, \<open>Execute\<close> changes the
  result code and the comment only: the command, the expected response and the caption are
  after the call what they were before it.
\<close>

theorem Execute_frame:
  "Cmd (snd (Execute shell interaction)) = Cmd interaction \<and>
   Response (snd (Execute shell interaction)) = Response interaction \<and>
   Caption (snd (Execute shell interaction)) = Caption interaction \<and>
   snd (Execute shell interaction) =
     interaction\<lparr>ResultCode := ResultCode (snd (Execute shell interaction)),
                 Comment := Comment (snd (Execute shell interaction))\<rparr>"
proof -
  obtain out rc err where sh: "shell (Cmd interaction) = (out, rc, err)"
    by (cases "shell (Cmd interaction)") auto
  show ?thesis
  proof (cases err)
    case (Some e)
    with sh show ?thesis by (simp add: Execute_def)
  next
    case None
    with sh show ?thesis by (simp add: Execute_def compareRegex_def)
  qed
qed

end
